theory Spec2Isabelle
  imports Main "HOL-Library.List_Lexorder"
begin

section \<open>Memory, views and iterators\<close>

text \<open>
  \<open>fibb::Array_Wrapper<T, N>\<close> is a class with one field, the pointer \<open>m_array\<close>, and a
  template parameter \<open>N\<close>. Two headers of it are in the repository: \<open>array_wrapper.hpp\<close>
  and the listing carried by \<open>README.md\<close>. Where the two agree there is one definition;
  where they differ there are two, with the suffixes \<open>_hpp\<close> and \<open>_readme\<close>.

  Several views may point into the same memory, so memory is an explicit store from
  addresses to elements. A pointer, a reference and an iterator (\<open>iterator = T*\<close>) are
  addresses; pointer arithmetic is addition. \<open>size_t\<close> is modelled by \<open>nat\<close>: the
  code only compares indices with \<open>N\<close> and adds them to \<open>m_array\<close>. The template
  parameter \<open>N\<close> is the first argument of every member function.
\<close>

type_synonym addr = nat
type_synonym size_type = nat
type_synonym 'a heap = "addr \<Rightarrow> 'a"

record Array_Wrapper =
  m_array :: addr

text \<open>A \<open>std::array<T, N>\<close> operand: the address that its \<open>data()\<close> returns.\<close>

record std_array =
  data_ptr :: addr

text \<open>What a block of \<open>n\<close> elements at address \<open>p\<close> holds.\<close>

definition contents :: "'a heap \<Rightarrow> addr \<Rightarrow> nat \<Rightarrow> 'a list" where
  "contents h p n = map h [p..<p + n]"

definition begin_iter :: "Array_Wrapper \<Rightarrow> addr" where
  "begin_iter this = m_array this"

definition end_iter :: "nat \<Rightarrow> Array_Wrapper \<Rightarrow> addr" where
  "end_iter N this = m_array this + N"

definition data :: "Array_Wrapper \<Rightarrow> addr" where
  "data this = m_array this"

section \<open>The standard algorithms the header calls\<close>

text \<open>
  The algorithms of \<open><algorithm>\<close> are modelled as the C++ standard describes them, on
  ranges of addresses. Each loop of the standard library runs \<open>while (first != last)\<close>;
  every call in the header passes \<open>last = first + N\<close>, and the model's loops test
  \<open>first < last\<close>.
\<close>

text \<open>\<open>std::fill_n(first, count, value)\<close>\<close>

fun std_fill_n :: "addr \<Rightarrow> nat \<Rightarrow> 'a \<Rightarrow> 'a heap \<Rightarrow> 'a heap" where
  "std_fill_n first 0 v h = h"
| "std_fill_n first (Suc n) v h = std_fill_n (Suc first) n v (h(first := v))"

text \<open>\<open>std::iter_swap(a, b)\<close> and \<open>std::swap_ranges(first1, last1, first2)\<close>\<close>

definition iter_swap :: "addr \<Rightarrow> addr \<Rightarrow> 'a heap \<Rightarrow> 'a heap" where
  "iter_swap a b h = h(a := h b, b := h a)"

function std_swap_ranges :: "addr \<Rightarrow> addr \<Rightarrow> addr \<Rightarrow> 'a heap \<Rightarrow> 'a heap" where
  "std_swap_ranges first1 last1 first2 h =
     (if first1 < last1
      then std_swap_ranges (Suc first1) last1 (Suc first2) (iter_swap first1 first2 h)
      else h)"
  by pat_completeness auto
termination
  by (relation "measure (\<lambda>(first1, last1, first2, h). last1 - first1)") auto

declare std_swap_ranges.simps [simp del]

text \<open>\<open>std::copy(first, last, d_first)\<close>\<close>

function std_copy :: "addr \<Rightarrow> addr \<Rightarrow> addr \<Rightarrow> 'a heap \<Rightarrow> 'a heap" where
  "std_copy first1 last1 d_first h =
     (if first1 < last1
      then std_copy (Suc first1) last1 (Suc d_first) (h(d_first := h first1))
      else h)"
  by pat_completeness auto
termination
  by (relation "measure (\<lambda>(first1, last1, d_first, h). last1 - first1)") auto

declare std_copy.simps [simp del]

text \<open>
  \<open>std::move(first, last, d_first)\<close>: each step is \<open>*d_first = std::move(*first)\<close>. The
  destination receives the source's value; what the moved-from source element holds
  afterwards depends on \<open>T\<close> and is the parameter \<open>moved_from\<close> (the identity for
  \<open>int\<close>).
\<close>

function std_move :: "('a \<Rightarrow> 'a) \<Rightarrow> addr \<Rightarrow> addr \<Rightarrow> addr \<Rightarrow> 'a heap \<Rightarrow> 'a heap" where
  "std_move moved_from first1 last1 d_first h =
     (if first1 < last1
      then std_move moved_from (Suc first1) last1 (Suc d_first)
             (h(first1 := moved_from (h first1), d_first := h first1))
      else h)"
  by pat_completeness auto
termination
  by (relation "measure (\<lambda>(moved_from, first1, last1, d_first, h). last1 - first1)") auto

declare std_move.simps [simp del]

text \<open>\<open>std::equal(first1, last1, first2)\<close>\<close>

function std_equal :: "'a heap \<Rightarrow> addr \<Rightarrow> addr \<Rightarrow> addr \<Rightarrow> bool" where
  "std_equal h first1 last1 first2 =
     (if first1 < last1
      then (if h first1 = h first2 then std_equal h (Suc first1) last1 (Suc first2) else False)
      else True)"
  by pat_completeness auto
termination
  by (relation "measure (\<lambda>(h, first1, last1, first2). last1 - first1)") auto

declare std_equal.simps [simp del]

text \<open>
  \<open>std::lexicographical_compare(first1, last1, first2, last2, comp)\<close>:
  \<^verbatim>\<open>
  for (; first1 != last1 && first2 != last2; ++first1, ++first2) {
      if (comp(*first1, *first2)) return true;
      if (comp(*first2, *first1)) return false;
  }
  return first1 == last1 && first2 != last2;
  \<close>
\<close>

function std_lexicographical_compare ::
  "('a \<Rightarrow> 'a \<Rightarrow> bool) \<Rightarrow> 'a heap \<Rightarrow> addr \<Rightarrow> addr \<Rightarrow> addr \<Rightarrow> addr \<Rightarrow> bool" where
  "std_lexicographical_compare cmp h first1 last1 first2 last2 =
     (if first1 < last1 \<and> first2 < last2
      then (if cmp (h first1) (h first2) then True
            else if cmp (h first2) (h first1) then False
            else std_lexicographical_compare cmp h (Suc first1) last1 (Suc first2) last2)
      else \<not> first1 < last1 \<and> first2 < last2)"
  by pat_completeness auto
termination
  by (relation "measure (\<lambda>(cmp, h, first1, last1, first2, last2). last1 - first1)") auto

declare std_lexicographical_compare.simps [simp del]

section \<open>Member functions\<close>

subsection \<open>Fill\<close>

text \<open>\<open>void fill(const value_type& val) { std::fill_n(begin(), N, val); }\<close>\<close>

definition fill :: "nat \<Rightarrow> Array_Wrapper \<Rightarrow> 'a \<Rightarrow> 'a heap \<Rightarrow> 'a heap" where
  "fill N this val h = std_fill_n (begin_iter this) N val h"

subsection \<open>Comparison\<close>

text \<open>
  \<open>array_wrapper.hpp\<close> compares the two pointers:
  \<^verbatim>\<open>
  bool operator==(const Array_Wrapper& other) const { return m_array == other.m_array; }
  bool operator!=(const Array_Wrapper& other) const { return m_array != other.m_array; }
  \<close>
\<close>

definition operator_eq_hpp :: "Array_Wrapper \<Rightarrow> Array_Wrapper \<Rightarrow> bool" where
  "operator_eq_hpp this other = (m_array this = m_array other)"

definition operator_ne_hpp :: "Array_Wrapper \<Rightarrow> Array_Wrapper \<Rightarrow> bool" where
  "operator_ne_hpp this other = (m_array this \<noteq> m_array other)"

text \<open>
  The listing in \<open>README.md\<close> compares the elements:
  \<open>operator==\<close> is \<open>std::equal(begin(), end(), other.begin())\<close> and \<open>operator!=\<close> is
  \<open>!(*this == other)\<close>.
\<close>

definition operator_eq_readme ::
  "nat \<Rightarrow> Array_Wrapper \<Rightarrow> Array_Wrapper \<Rightarrow> 'a heap \<Rightarrow> bool" where
  "operator_eq_readme N this other h =
     std_equal h (begin_iter this) (end_iter N this) (begin_iter other)"

definition operator_ne_readme ::
  "nat \<Rightarrow> Array_Wrapper \<Rightarrow> Array_Wrapper \<Rightarrow> 'a heap \<Rightarrow> bool" where
  "operator_ne_readme N this other h = (\<not> operator_eq_readme N this other h)"

text \<open>
  The ordering operators are in \<open>README.md\<close> only. Each is
  \<open>std::lexicographical_compare(begin(), end(), other.begin(), other.end(), comp)\<close>;
  \<open>operator<\<close> passes no comparator (the default is \<open><\<close>), and the other three pass
  the lambdas \<open>a > b\<close>, \<open>a <= b\<close> and \<open>a >= b\<close>.
\<close>

definition operator_less ::
  "nat \<Rightarrow> Array_Wrapper \<Rightarrow> Array_Wrapper \<Rightarrow> ('a::ord) heap \<Rightarrow> bool" where
  "operator_less N this other h =
     std_lexicographical_compare (\<lambda>a b. a < b) h
       (begin_iter this) (end_iter N this) (begin_iter other) (end_iter N other)"

definition operator_greater ::
  "nat \<Rightarrow> Array_Wrapper \<Rightarrow> Array_Wrapper \<Rightarrow> ('a::ord) heap \<Rightarrow> bool" where
  "operator_greater N this other h =
     std_lexicographical_compare (\<lambda>a b. a > b) h
       (begin_iter this) (end_iter N this) (begin_iter other) (end_iter N other)"

definition operator_le ::
  "nat \<Rightarrow> Array_Wrapper \<Rightarrow> Array_Wrapper \<Rightarrow> ('a::ord) heap \<Rightarrow> bool" where
  "operator_le N this other h =
     std_lexicographical_compare (\<lambda>a b. a \<le> b) h
       (begin_iter this) (end_iter N this) (begin_iter other) (end_iter N other)"

definition operator_ge ::
  "nat \<Rightarrow> Array_Wrapper \<Rightarrow> Array_Wrapper \<Rightarrow> ('a::ord) heap \<Rightarrow> bool" where
  "operator_ge N this other h =
     std_lexicographical_compare (\<lambda>a b. a \<ge> b) h
       (begin_iter this) (end_iter N this) (begin_iter other) (end_iter N other)"

subsection \<open>Assignment\<close>

text \<open>
  An assignment returns \<open>*this\<close>: the model returns the view together with the memory
  after the call.

  \<open>array_wrapper.hpp\<close> declares no \<open>operator=\<close>. Its only data member is the non-const
  pointer \<open>pointer m_array;\<close>, so \<open>a = b\<close> and \<open>a = std::move(b)\<close> between views compile
  to the implicitly defined copy and move assignment, which assign member by member:
  \<open>m_array = other.m_array\<close>. No element is read or written. There is no assignment
  from a \<open>std::array\<close> in that header.
\<close>

definition copy_assign_hpp ::
  "Array_Wrapper \<Rightarrow> Array_Wrapper \<Rightarrow> 'a heap \<Rightarrow> Array_Wrapper \<times> 'a heap" where
  "copy_assign_hpp this other h = (this\<lparr>m_array := m_array other\<rparr>, h)"

definition move_assign_hpp ::
  "Array_Wrapper \<Rightarrow> Array_Wrapper \<Rightarrow> 'a heap \<Rightarrow> Array_Wrapper \<times> 'a heap" where
  "move_assign_hpp this other h = (this\<lparr>m_array := m_array other\<rparr>, h)"

text \<open>
  The listing in \<open>README.md\<close> defines four assignment operators. Between views the guard
  is \<open>if (*this != other)\<close>, the \<open>operator!=\<close> of that listing; from a \<open>std::array\<close> it
  is \<open>if (m_array != other.data())\<close>, and \<open>other.size()\<close> is \<open>N\<close>.
\<close>

definition copy_assign ::
  "nat \<Rightarrow> Array_Wrapper \<Rightarrow> Array_Wrapper \<Rightarrow> 'a heap \<Rightarrow> Array_Wrapper \<times> 'a heap" where
  "copy_assign N this other h =
     (if operator_ne_readme N this other h
      then (this, std_copy (begin_iter other) (end_iter N other) (begin_iter this) h)
      else (this, h))"

definition copy_assign_array ::
  "nat \<Rightarrow> Array_Wrapper \<Rightarrow> std_array \<Rightarrow> 'a heap \<Rightarrow> Array_Wrapper \<times> 'a heap" where
  "copy_assign_array N this other h =
     (if m_array this \<noteq> data_ptr other
      then (this, std_copy (data_ptr other) (data_ptr other + N) (begin_iter this) h)
      else (this, h))"

definition move_assign ::
  "('a \<Rightarrow> 'a) \<Rightarrow> nat \<Rightarrow> Array_Wrapper \<Rightarrow> Array_Wrapper \<Rightarrow> 'a heap
     \<Rightarrow> Array_Wrapper \<times> 'a heap" where
  "move_assign moved_from N this other h =
     (if operator_ne_readme N this other h
      then (this, std_move moved_from (begin_iter other) (end_iter N other) (begin_iter this) h)
      else (this, h))"

definition move_assign_array ::
  "('a \<Rightarrow> 'a) \<Rightarrow> nat \<Rightarrow> Array_Wrapper \<Rightarrow> std_array \<Rightarrow> 'a heap
     \<Rightarrow> Array_Wrapper \<times> 'a heap" where
  "move_assign_array moved_from N this other h =
     (if m_array this \<noteq> data_ptr other
      then (this, std_move moved_from (data_ptr other) (data_ptr other + N) (begin_iter this) h)
      else (this, h))"

subsection \<open>Swap\<close>

text \<open>
  \<open>swap\<close> takes \<open>other\<close> by non-const reference: the model returns both views and the
  memory after the call. \<open>array_wrapper.hpp\<close> guards with
  \<open>if (m_array != other.m_array)\<close>, the listing in \<open>README.md\<close> with
  \<open>if (*this != other)\<close>; the overload for \<open>std::array\<close> is the same in both.
\<close>

definition swap_hpp ::
  "nat \<Rightarrow> Array_Wrapper \<Rightarrow> Array_Wrapper \<Rightarrow> 'a heap
     \<Rightarrow> Array_Wrapper \<times> Array_Wrapper \<times> 'a heap" where
  "swap_hpp N this other h =
     (if m_array this \<noteq> m_array other
      then (this, other,
            std_swap_ranges (begin_iter this) (end_iter N this) (begin_iter other) h)
      else (this, other, h))"

definition swap_readme ::
  "nat \<Rightarrow> Array_Wrapper \<Rightarrow> Array_Wrapper \<Rightarrow> 'a heap
     \<Rightarrow> Array_Wrapper \<times> Array_Wrapper \<times> 'a heap" where
  "swap_readme N this other h =
     (if operator_ne_readme N this other h
      then (this, other,
            std_swap_ranges (begin_iter this) (end_iter N this) (begin_iter other) h)
      else (this, other, h))"

definition swap_array ::
  "nat \<Rightarrow> Array_Wrapper \<Rightarrow> std_array \<Rightarrow> 'a heap
     \<Rightarrow> Array_Wrapper \<times> std_array \<times> 'a heap" where
  "swap_array N this other h =
     (if m_array this \<noteq> data_ptr other
      then (this, other,
            std_swap_ranges (begin_iter this) (end_iter N this) (data_ptr other) h)
      else (this, other, h))"

subsection \<open>Capacity\<close>

text \<open>
  \<open>size()\<close> and \<open>max_size()\<close> return \<open>N\<close> in both headers. \<open>empty()\<close> differs:
  \<open>array_wrapper.hpp\<close> has \<open>constexpr bool empty() const noexcept { return N; }\<close>, the
  conversion of \<open>N\<close> to \<open>bool\<close>, which is \<open>N != 0\<close>; the listing in \<open>README.md\<close> has
  \<open>return N == 0;\<close>.
\<close>

definition size_aw :: "nat \<Rightarrow> Array_Wrapper \<Rightarrow> size_type" where
  "size_aw N this = N"

definition max_size :: "nat \<Rightarrow> Array_Wrapper \<Rightarrow> size_type" where
  "max_size N this = N"

definition empty_hpp :: "nat \<Rightarrow> Array_Wrapper \<Rightarrow> bool" where
  "empty_hpp N this = (N \<noteq> 0)"

definition empty_readme :: "nat \<Rightarrow> Array_Wrapper \<Rightarrow> bool" where
  "empty_readme N this = (N = 0)"

subsection \<open>Element access\<close>

text \<open>
  A returned reference is the address of the slot. \<open>operator[]\<close>, \<open>front\<close> and \<open>back\<close>
  make no check.
\<close>

definition subscript :: "Array_Wrapper \<Rightarrow> size_type \<Rightarrow> addr" where
  "subscript this pos = m_array this + pos"

definition front_aw :: "Array_Wrapper \<Rightarrow> addr" where
  "front_aw this = m_array this + 0"

definition back_aw :: "nat \<Rightarrow> Array_Wrapper \<Rightarrow> addr" where
  "back_aw N this = m_array this + (N - 1)"

text \<open>\<open>std::to_string\<close> of an unsigned integer: its decimal digits.\<close>

definition digit_char :: "nat \<Rightarrow> char" where
  "digit_char d = char_of (48 + d)"

function to_string :: "nat \<Rightarrow> string" where
  "to_string n =
     (if n < 10 then [digit_char n] else to_string (n div 10) @ [digit_char (n mod 10)])"
  by pat_completeness auto
termination
  by (relation "measure (\<lambda>n. n)") auto

declare to_string.simps [simp del]

text \<open>The one exception type the header throws, with its \<open>what()\<close> message.\<close>

datatype error = out_of_range string

text \<open>
  \<open>README.md\<close>: \<open>raise_range_error(pos)\<close> throws
  \<open>std::out_of_range(std::string("Out of range: ") + std::to_string(pos))\<close>; it never
  returns, so the model gives the exception it throws.
\<close>

definition raise_range_error :: "size_type \<Rightarrow> error" where
  "raise_range_error pos = out_of_range (''Out of range: '' @ to_string pos)"

text \<open>
  \<open>at(pos)\<close>. A throw is \<open>Inl\<close>, a returned reference is \<open>Inr\<close>; the memory after the
  call is the second component. In \<open>README.md\<close> the non-const overload calls the const
  one and casts the result; in \<open>array_wrapper.hpp\<close> both overloads have the same body,
  with the throw written in place.
\<close>

definition at_const_readme ::
  "nat \<Rightarrow> Array_Wrapper \<Rightarrow> size_type \<Rightarrow> 'a heap \<Rightarrow> (error + addr) \<times> 'a heap" where
  "at_const_readme N this pos h =
     (if pos \<ge> N then (Inl (raise_range_error pos), h) else (Inr (m_array this + pos), h))"

definition at_readme ::
  "nat \<Rightarrow> Array_Wrapper \<Rightarrow> size_type \<Rightarrow> 'a heap \<Rightarrow> (error + addr) \<times> 'a heap" where
  "at_readme N this pos h = at_const_readme N this pos h"

definition at_hpp ::
  "nat \<Rightarrow> Array_Wrapper \<Rightarrow> size_type \<Rightarrow> 'a heap \<Rightarrow> (error + addr) \<times> 'a heap" where
  "at_hpp N this pos h =
     (if pos \<ge> N then (Inl (out_of_range (''Out of range: '' @ to_string pos)), h)
      else (Inr (m_array this + pos), h))"

text \<open>
  Reading the index back from an exception's message: the digits after the 14
  characters of \<open>"Out of range: "\<close>.
\<close>

definition digit_val :: "char \<Rightarrow> nat" where
  "digit_val c = of_char c - 48"

definition from_digits :: "string \<Rightarrow> nat" where
  "from_digits s = foldl (\<lambda>acc c. 10 * acc + digit_val c) 0 s"

definition carried_index :: "error \<Rightarrow> nat" where
  "carried_index e = (case e of out_of_range msg \<Rightarrow> from_digits (drop 14 msg))"

subsection \<open>Reverse iterators\<close>

text \<open>
  \<open>std::reverse_iterator<T*>\<close> stores a base iterator \<open>current\<close>; \<open>*it\<close> is
  \<open>*(current - 1)\<close>, \<open>++it\<close> is \<open>--current\<close>, and two reverse iterators are equal when
  their bases are.
\<close>

datatype reverse_iterator = Reverse_Iterator (base: addr)

definition rderef :: "reverse_iterator \<Rightarrow> addr" where
  "rderef it = base it - 1"

definition rnext :: "reverse_iterator \<Rightarrow> reverse_iterator" where
  "rnext it = Reverse_Iterator (base it - 1)"

definition rbegin :: "nat \<Rightarrow> Array_Wrapper \<Rightarrow> reverse_iterator" where
  "rbegin N this = Reverse_Iterator (end_iter N this)"

definition rend :: "Array_Wrapper \<Rightarrow> reverse_iterator" where
  "rend this = Reverse_Iterator (begin_iter this)"

text \<open>
  The slots visited by the caller's loop
  \<open>for (it = first; it != last; ++it) visit(&*it)\<close>, over forward iterators and over
  reverse iterators.
\<close>

function traverse :: "addr \<Rightarrow> addr \<Rightarrow> addr list" where
  "traverse first1 last1 =
     (if first1 < last1 then first1 # traverse (Suc first1) last1 else [])"
  by pat_completeness auto
termination
  by (relation "measure (\<lambda>(first1, last1). last1 - first1)") auto

declare traverse.simps [simp del]

function rtraverse :: "reverse_iterator \<Rightarrow> reverse_iterator \<Rightarrow> addr list" where
  "rtraverse it last1 =
     (if base last1 < base it then rderef it # rtraverse (rnext it) last1 else [])"
  by pat_completeness auto
termination
  by (relation "measure (\<lambda>(it, last1). base it - base last1)") (auto simp: rnext_def)

declare rtraverse.simps [simp del]


subsection \<open>The public interface as a whole\<close>

text \<open>
  One call of a public member function on a view: the members that both headers
  declare, and the members that only the listing in \<open>README.md\<close> declares. The
  \<open>const\<close> overloads and the \<open>c\<close>-prefixed iterator accessors have the bodies of the
  members listed. A call gives the thrown exception or the returned value, and the
  memory after the call. For a member whose body is the same in both headers,
  \<open>call_readme\<close> goes through \<open>call_hpp\<close>.
\<close>

datatype 'a member =
    Op_Eq Array_Wrapper | Op_Ne Array_Wrapper
  | Fill 'a | Swap Array_Wrapper | Swap_Array std_array
  | Begin | End | RBegin | REnd
  | Size | Max_Size | Empty
  | Subscript size_type | At size_type | Front | Back | Data

datatype 'a member_readme =
    Common "'a member"
  | Op_Less Array_Wrapper | Op_Greater Array_Wrapper
  | Op_Le Array_Wrapper | Op_Ge Array_Wrapper
  | Copy_Assign Array_Wrapper | Copy_Assign_Array std_array
  | Move_Assign Array_Wrapper | Move_Assign_Array std_array

datatype ret =
    Void | Bool bool | Num size_type | Ptr addr | RIter reverse_iterator | Self Array_Wrapper

definition checked :: "(error + addr) \<times> 'a heap \<Rightarrow> (error + ret) \<times> 'a heap" where
  "checked r = (case fst r of Inl e \<Rightarrow> (Inl e, snd r) | Inr a \<Rightarrow> (Inr (Ptr a), snd r))"

fun call_hpp ::
  "nat \<Rightarrow> Array_Wrapper \<Rightarrow> 'a member \<Rightarrow> 'a heap \<Rightarrow> (error + ret) \<times> 'a heap" where
  "call_hpp N this (Op_Eq other) h = (Inr (Bool (operator_eq_hpp this other)), h)"
| "call_hpp N this (Op_Ne other) h = (Inr (Bool (operator_ne_hpp this other)), h)"
| "call_hpp N this (Fill val) h = (Inr Void, fill N this val h)"
| "call_hpp N this (Swap other) h = (Inr Void, snd (snd (swap_hpp N this other h)))"
| "call_hpp N this (Swap_Array other) h = (Inr Void, snd (snd (swap_array N this other h)))"
| "call_hpp N this Begin h = (Inr (Ptr (begin_iter this)), h)"
| "call_hpp N this End h = (Inr (Ptr (end_iter N this)), h)"
| "call_hpp N this RBegin h = (Inr (RIter (rbegin N this)), h)"
| "call_hpp N this REnd h = (Inr (RIter (rend this)), h)"
| "call_hpp N this Size h = (Inr (Num (size_aw N this)), h)"
| "call_hpp N this Max_Size h = (Inr (Num (max_size N this)), h)"
| "call_hpp N this Empty h = (Inr (Bool (empty_hpp N this)), h)"
| "call_hpp N this (Subscript pos) h = (Inr (Ptr (subscript this pos)), h)"
| "call_hpp N this (At pos) h = checked (at_hpp N this pos h)"
| "call_hpp N this Front h = (Inr (Ptr (front_aw this)), h)"
| "call_hpp N this Back h = (Inr (Ptr (back_aw N this)), h)"
| "call_hpp N this Data h = (Inr (Ptr (data this)), h)"

fun call_readme ::
  "('a \<Rightarrow> 'a) \<Rightarrow> nat \<Rightarrow> Array_Wrapper \<Rightarrow> ('a::ord) member_readme \<Rightarrow> 'a heap
     \<Rightarrow> (error + ret) \<times> 'a heap" where
  "call_readme mv N this (Common (Op_Eq other)) h =
     (Inr (Bool (operator_eq_readme N this other h)), h)"
| "call_readme mv N this (Common (Op_Ne other)) h =
     (Inr (Bool (operator_ne_readme N this other h)), h)"
| "call_readme mv N this (Common (Swap other)) h =
     (Inr Void, snd (snd (swap_readme N this other h)))"
| "call_readme mv N this (Common Empty) h = (Inr (Bool (empty_readme N this)), h)"
| "call_readme mv N this (Common (At pos)) h = checked (at_readme N this pos h)"
| "call_readme mv N this (Common m) h = call_hpp N this m h"
| "call_readme mv N this (Op_Less other) h = (Inr (Bool (operator_less N this other h)), h)"
| "call_readme mv N this (Op_Greater other) h =
     (Inr (Bool (operator_greater N this other h)), h)"
| "call_readme mv N this (Op_Le other) h = (Inr (Bool (operator_le N this other h)), h)"
| "call_readme mv N this (Op_Ge other) h = (Inr (Bool (operator_ge N this other h)), h)"
| "call_readme mv N this (Copy_Assign other) h =
     (let r = copy_assign N this other h in (Inr (Self (fst r)), snd r))"
| "call_readme mv N this (Copy_Assign_Array other) h =
     (let r = copy_assign_array N this other h in (Inr (Self (fst r)), snd r))"
| "call_readme mv N this (Move_Assign other) h =
     (let r = move_assign mv N this other h in (Inr (Self (fst r)), snd r))"
| "call_readme mv N this (Move_Assign_Array other) h =
     (let r = move_assign_array mv N this other h in (Inr (Self (fst r)), snd r))"

section \<open>Properties of the standard algorithms\<close>

lemma std_fill_n_get:
  "std_fill_n first n v h a = (if first \<le> a \<and> a < first + n then v else h a)"
  by (induction n arbitrary: first h) auto

text \<open>
  Copying, moving and swapping are described slot by slot: what an address outside the
  ranges holds afterwards, and what slot \<open>i\<close> of a range holds. \<open>std::copy\<close> and
  \<open>std::move\<close> require that \<open>d_first\<close> is not inside the source range;
  \<open>std::swap_ranges\<close> requires that the two ranges do not overlap.
\<close>

lemma std_copy_frame:
  "a < d \<or> d + n \<le> a \<Longrightarrow> std_copy s (s + n) d h a = h a"
proof (induction n arbitrary: s d h)
  case 0
  show ?case by (subst std_copy.simps) simp
next
  case (Suc n)
  have step: "std_copy s (s + Suc n) d h = std_copy (Suc s) (Suc s + n) (Suc d) (h(d := h s))"
    by (subst std_copy.simps) simp
  from Suc.prems have pre: "a < Suc d \<or> Suc d + n \<le> a" and ne: "a \<noteq> d" by auto
  have "std_copy (Suc s) (Suc s + n) (Suc d) (h(d := h s)) a = (h(d := h s)) a"
    by (rule Suc.IH [OF pre])
  with ne show ?case unfolding step by simp
qed

lemma std_copy_dest:
  "d \<le> s \<or> s + n \<le> d \<Longrightarrow> i < n \<Longrightarrow> std_copy s (s + n) d h (d + i) = h (s + i)"
proof (induction n arbitrary: s d h i)
  case 0
  then show ?case by simp
next
  case (Suc n)
  have step: "std_copy s (s + Suc n) d h = std_copy (Suc s) (Suc s + n) (Suc d) (h(d := h s))"
    by (subst std_copy.simps) simp
  show ?case
  proof (cases i)
    case 0
    have "std_copy (Suc s) (Suc s + n) (Suc d) (h(d := h s)) d = (h(d := h s)) d"
      by (rule std_copy_frame) simp
    with 0 show ?thesis unfolding step by simp
  next
    case (Suc j)
    from Suc.prems(1) have pre: "Suc d \<le> Suc s \<or> Suc s + n \<le> Suc d" by auto
    from Suc.prems(2) Suc have j: "j < n" by simp
    from Suc.prems(1) have ne: "Suc s + j \<noteq> d" using j by auto
    have "std_copy (Suc s) (Suc s + n) (Suc d) (h(d := h s)) (Suc d + j) = (h(d := h s)) (Suc s + j)"
      by (rule Suc.IH [OF pre j])
    with ne Suc show ?thesis unfolding step by simp
  qed
qed

lemma std_move_frame:
  "a < d \<or> d + n \<le> a \<Longrightarrow> a < s \<or> s + n \<le> a \<Longrightarrow> std_move mv s (s + n) d h a = h a"
proof (induction n arbitrary: s d h)
  case 0
  show ?case by (subst std_move.simps) simp
next
  case (Suc n)
  have step: "std_move mv s (s + Suc n) d h
                = std_move mv (Suc s) (Suc s + n) (Suc d) (h(s := mv (h s), d := h s))"
    by (subst std_move.simps) simp
  from Suc.prems have pre: "a < Suc d \<or> Suc d + n \<le> a" "a < Suc s \<or> Suc s + n \<le> a"
    and ne: "a \<noteq> d" "a \<noteq> s" by auto
  have "std_move mv (Suc s) (Suc s + n) (Suc d) (h(s := mv (h s), d := h s)) a
          = (h(s := mv (h s), d := h s)) a"
    by (rule Suc.IH [OF pre])
  with ne show ?case unfolding step by simp
qed

lemma std_move_dest:
  "d < s \<or> s + n \<le> d \<Longrightarrow> i < n \<Longrightarrow> std_move mv s (s + n) d h (d + i) = h (s + i)"
proof (induction n arbitrary: s d h i)
  case 0
  then show ?case by simp
next
  case (Suc n)
  let ?h = "h(s := mv (h s), d := h s)"
  have step: "std_move mv s (s + Suc n) d h = std_move mv (Suc s) (Suc s + n) (Suc d) ?h"
    by (subst std_move.simps) simp
  show ?case
  proof (cases i)
    case 0
    from Suc.prems(1) have "d < Suc s \<or> Suc s + n \<le> d" by auto
    then have "std_move mv (Suc s) (Suc s + n) (Suc d) ?h d = ?h d"
      by (intro std_move_frame) auto
    with 0 show ?thesis unfolding step by simp
  next
    case (Suc j)
    from Suc.prems(1) have pre: "Suc d < Suc s \<or> Suc s + n \<le> Suc d" by auto
    from Suc.prems(2) Suc have j: "j < n" by simp
    from Suc.prems(1) have ne: "Suc s + j \<noteq> d" "Suc s + j \<noteq> s" using j by auto
    have "std_move mv (Suc s) (Suc s + n) (Suc d) ?h (Suc d + j) = ?h (Suc s + j)"
      by (rule Suc.IH [OF pre j])
    with ne Suc show ?thesis unfolding step by simp
  qed
qed

lemma std_swap_ranges_frame:
  "a < p \<or> p + n \<le> a \<Longrightarrow> a < q \<or> q + n \<le> a \<Longrightarrow> std_swap_ranges p (p + n) q h a = h a"
proof (induction n arbitrary: p q h)
  case 0
  show ?case by (subst std_swap_ranges.simps) simp
next
  case (Suc n)
  have step: "std_swap_ranges p (p + Suc n) q h
                = std_swap_ranges (Suc p) (Suc p + n) (Suc q) (h(p := h q, q := h p))"
    by (subst std_swap_ranges.simps) (simp add: iter_swap_def)
  from Suc.prems have pre: "a < Suc p \<or> Suc p + n \<le> a" "a < Suc q \<or> Suc q + n \<le> a"
    and ne: "a \<noteq> p" "a \<noteq> q" by auto
  have "std_swap_ranges (Suc p) (Suc p + n) (Suc q) (h(p := h q, q := h p)) a
          = (h(p := h q, q := h p)) a"
    by (rule Suc.IH [OF pre])
  with ne show ?case unfolding step by simp
qed

lemma std_swap_ranges_both:
  "q + n \<le> p \<or> p + n \<le> q \<Longrightarrow> i < n \<Longrightarrow>
   std_swap_ranges p (p + n) q h (p + i) = h (q + i)
   \<and> std_swap_ranges p (p + n) q h (q + i) = h (p + i)"
proof (induction n arbitrary: p q h i)
  case 0
  then show ?case by simp
next
  case (Suc n)
  let ?h = "h(p := h q, q := h p)"
  have step: "std_swap_ranges p (p + Suc n) q h
                = std_swap_ranges (Suc p) (Suc p + n) (Suc q) ?h"
    by (subst std_swap_ranges.simps) (simp add: iter_swap_def)
  from Suc.prems(1) have pq: "p \<noteq> q" by auto
  show ?case
  proof (cases i)
    case 0
    from Suc.prems(1) have "p < Suc q \<or> Suc q + n \<le> p" by auto
    then have fp: "std_swap_ranges (Suc p) (Suc p + n) (Suc q) ?h p = ?h p"
      by (intro std_swap_ranges_frame) auto
    from Suc.prems(1) have "q < Suc p \<or> Suc p + n \<le> q" by auto
    then have fq: "std_swap_ranges (Suc p) (Suc p + n) (Suc q) ?h q = ?h q"
      by (intro std_swap_ranges_frame) auto
    from 0 fp fq pq show ?thesis unfolding step by simp
  next
    case (Suc j)
    from Suc.prems(1) have pre: "Suc q + n \<le> Suc p \<or> Suc p + n \<le> Suc q" by auto
    from Suc.prems(2) Suc have j: "j < n" by simp
    from Suc.prems(1) j have ne: "Suc q + j \<noteq> p" "Suc q + j \<noteq> q" "Suc p + j \<noteq> p" "Suc p + j \<noteq> q"
      by auto
    have "std_swap_ranges (Suc p) (Suc p + n) (Suc q) ?h (Suc p + j) = ?h (Suc q + j)
          \<and> std_swap_ranges (Suc p) (Suc p + n) (Suc q) ?h (Suc q + j) = ?h (Suc p + j)"
      by (rule Suc.IH [OF pre j])
    with ne Suc show ?thesis unfolding step by simp
  qed
qed

text \<open>Reading a block, and the two read-only algorithms.\<close>

lemma std_equal_iff:
  "std_equal h p (p + n) q \<longleftrightarrow> (\<forall>i < n. h (p + i) = h (q + i))"
proof (induction n arbitrary: p q)
  case 0
  show ?case by (subst std_equal.simps) simp
next
  case (Suc n)
  have step: "std_equal h p (p + Suc n) q
                \<longleftrightarrow> h p = h q \<and> std_equal h (Suc p) (Suc p + n) (Suc q)"
    by (subst std_equal.simps) simp
  have "(\<forall>i < Suc n. h (p + i) = h (q + i))
          \<longleftrightarrow> h p = h q \<and> (\<forall>i < n. h (Suc p + i) = h (Suc q + i))"
    by (simp add: All_less_Suc2)
  with step Suc.IH [of "Suc p" "Suc q"] show ?case by simp
qed

lemma contents_eq_iff:
  "contents h p n = contents g q n \<longleftrightarrow> (\<forall>i < n. h (p + i) = g (q + i))"
  by (simp add: contents_def list_eq_iff_nth_eq)

lemma operator_eq_readme_iff:
  "operator_eq_readme N this other h
     \<longleftrightarrow> contents h (m_array this) N = contents h (m_array other) N"
  by (simp add: operator_eq_readme_def begin_iter_def end_iter_def std_equal_iff contents_eq_iff)

lemma contents_Suc: "contents h p (Suc n) = h p # contents h (Suc p) n"
proof -
  have "[p..<p + Suc n] = p # [Suc p..<Suc p + n]"
    by (subst upt_conv_Cons) simp_all
  then show ?thesis by (simp add: contents_def)
qed

lemma lexicographical_compare_less:
  fixes h :: "('a::linorder) heap"
  shows "std_lexicographical_compare (\<lambda>a b. a < b) h p (p + n) q (q + n)
           \<longleftrightarrow> contents h p n < contents h q n"
proof (induction n arbitrary: p q)
  case 0
  show ?case by (subst std_lexicographical_compare.simps) (simp add: contents_def)
next
  case (Suc n)
  have step: "std_lexicographical_compare (\<lambda>a b. a < b) h p (p + Suc n) q (q + Suc n)
     \<longleftrightarrow> h p < h q
          \<or> \<not> h q < h p
             \<and> std_lexicographical_compare (\<lambda>a b. a < b) h (Suc p) (Suc p + n) (Suc q) (Suc q + n)"
    by (subst std_lexicographical_compare.simps) auto
  show ?case unfolding step Suc.IH contents_Suc by auto
qed

lemma lexicographical_compare_greater:
  fixes h :: "('a::linorder) heap"
  shows "std_lexicographical_compare (\<lambda>a b. a > b) h p (p + n) q (q + n)
           \<longleftrightarrow> contents h p n > contents h q n"
proof (induction n arbitrary: p q)
  case 0
  show ?case by (subst std_lexicographical_compare.simps) (simp add: contents_def)
next
  case (Suc n)
  have step: "std_lexicographical_compare (\<lambda>a b. a > b) h p (p + Suc n) q (q + Suc n)
     \<longleftrightarrow> h p > h q
          \<or> \<not> h q > h p
             \<and> std_lexicographical_compare (\<lambda>a b. a > b) h (Suc p) (Suc p + n) (Suc q) (Suc q + n)"
    by (subst std_lexicographical_compare.simps) auto
  show ?case unfolding step Suc.IH contents_Suc by auto
qed

lemma lexicographical_compare_le_first:
  fixes h :: "('a::linorder) heap"
  shows "std_lexicographical_compare (\<lambda>a b. a \<le> b) h p (p + Suc n) q (q + Suc n)
           \<longleftrightarrow> h p \<le> h q"
  by (subst std_lexicographical_compare.simps) auto

lemma lexicographical_compare_ge_first:
  fixes h :: "('a::linorder) heap"
  shows "std_lexicographical_compare (\<lambda>a b. a \<ge> b) h p (p + Suc n) q (q + Suc n)
           \<longleftrightarrow> h p \<ge> h q"
  by (subst std_lexicographical_compare.simps) auto

text \<open>The ordering operators of \<open>README.md\<close>, on a totally ordered element type.\<close>

lemma operator_less_iff:
  fixes h :: "('a::linorder) heap"
  shows "operator_less N this other h
           \<longleftrightarrow> contents h (m_array this) N < contents h (m_array other) N"
  by (simp add: operator_less_def begin_iter_def end_iter_def lexicographical_compare_less)

lemma operator_greater_iff:
  fixes h :: "('a::linorder) heap"
  shows "operator_greater N this other h
           \<longleftrightarrow> contents h (m_array this) N > contents h (m_array other) N"
  by (simp add: operator_greater_def begin_iter_def end_iter_def lexicographical_compare_greater)

lemma operator_le_first:
  fixes h :: "('a::linorder) heap"
  shows "operator_le (Suc n) this other h \<longleftrightarrow> h (m_array this) \<le> h (m_array other)"
  by (simp only: operator_le_def begin_iter_def end_iter_def lexicographical_compare_le_first)

lemma operator_ge_first:
  fixes h :: "('a::linorder) heap"
  shows "operator_ge (Suc n) this other h \<longleftrightarrow> h (m_array this) \<ge> h (m_array other)"
  by (simp only: operator_ge_def begin_iter_def end_iter_def lexicographical_compare_ge_first)

section \<open>Properties of checked access and of iteration\<close>

lemma digit_val_digit_char: "d < 10 \<Longrightarrow> digit_val (digit_char d) = d"
  by (simp add: digit_val_def digit_char_def)

lemma from_digits_snoc: "from_digits (s @ [c]) = 10 * from_digits s + digit_val c"
  by (simp add: from_digits_def)

lemma from_digits_to_string: "from_digits (to_string n) = n"
proof (induction n rule: to_string.induct)
  case (1 n)
  show ?case
  proof (cases "n < 10")
    case True
    then show ?thesis
      by (subst to_string.simps) (simp add: from_digits_def digit_val_digit_char)
  next
    case False
    have "from_digits (to_string n) = 10 * from_digits (to_string (n div 10)) + digit_val (digit_char (n mod 10))"
      using False by (subst to_string.simps) (simp add: from_digits_snoc)
    also have "\<dots> = 10 * (n div 10) + n mod 10"
      using "1.IH" [OF False] by (simp add: digit_val_digit_char)
    finally show ?thesis by simp
  qed
qed

lemma carried_index_raise: "carried_index (raise_range_error pos) = pos"
  by (simp add: carried_index_def raise_range_error_def from_digits_to_string)

lemma call_hpp_throws:
  "fst (call_hpp N this m h) = Inl e \<Longrightarrow>
   \<exists>pos. m = At pos \<and> N \<le> pos \<and> e = raise_range_error pos \<and> snd (call_hpp N this m h) = h"
  by (cases m) (auto simp: checked_def at_hpp_def raise_range_error_def split: if_splits)

lemma call_readme_throws:
  "fst (call_readme mv N this m h) = Inl e \<Longrightarrow>
   \<exists>pos. m = Common (At pos) \<and> N \<le> pos \<and> e = raise_range_error pos
         \<and> snd (call_readme mv N this m h) = h"
proof (cases m)
  case (Common c)
  assume a: "fst (call_readme mv N this m h) = Inl e"
  show ?thesis
    using a Common
    by (cases c) (auto simp: checked_def at_hpp_def at_readme_def at_const_readme_def raise_range_error_def split: if_splits)
qed (auto simp: Let_def)

lemma traverse_upt: "traverse p (p + n) = [p..<p + n]"
proof (induction n arbitrary: p)
  case 0
  show ?case by (subst traverse.simps) simp
next
  case (Suc n)
  have "traverse p (p + Suc n) = p # traverse (Suc p) (Suc p + n)"
    by (subst traverse.simps) simp
  also have "\<dots> = p # [Suc p..<Suc p + n]" by (simp only: Suc.IH)
  also have "\<dots> = [p..<p + Suc n]" by (subst (2) upt_conv_Cons) simp_all
  finally show ?case .
qed

lemma rtraverse_rev_upt:
  "rtraverse (Reverse_Iterator (p + n)) (Reverse_Iterator p) = rev [p..<p + n]"
proof (induction n)
  case 0
  show ?case by (subst rtraverse.simps) simp
next
  case (Suc n)
  have "rtraverse (Reverse_Iterator (p + Suc n)) (Reverse_Iterator p)
          = (p + n) # rtraverse (Reverse_Iterator (p + n)) (Reverse_Iterator p)"
    by (subst rtraverse.simps) (simp add: rderef_def rnext_def)
  then show ?case by (simp add: Suc.IH)
qed

section \<open>Properties of assignment and swap\<close>

text \<open>
  The hypothesis of each lemma is the precondition of the standard algorithm called:
  the destination does not start inside the source range (assignment), the two ranges
  are disjoint or the same (swap).
\<close>

lemma copy_assign_contents:
  assumes "m_array this \<le> m_array other \<or> m_array other + N \<le> m_array this"
  shows "contents (snd (copy_assign N this other h)) (m_array this) N
           = contents h (m_array other) N"
proof (cases "operator_ne_readme N this other h")
  case True
  then show ?thesis
    using assms
    by (simp add: copy_assign_def begin_iter_def end_iter_def contents_eq_iff std_copy_dest)
next
  case False
  then have "contents h (m_array this) N = contents h (m_array other) N"
    by (simp add: operator_ne_readme_def operator_eq_readme_iff)
  with False show ?thesis by (simp add: copy_assign_def)
qed

lemma copy_assign_array_contents:
  assumes "m_array this \<le> data_ptr arr \<or> data_ptr arr + N \<le> m_array this"
  shows "contents (snd (copy_assign_array N this arr h)) (m_array this) N
           = contents h (data_ptr arr) N"
  using assms
  by (simp add: copy_assign_array_def begin_iter_def contents_eq_iff std_copy_dest)

lemma move_assign_contents:
  assumes "m_array this \<le> m_array other \<or> m_array other + N \<le> m_array this"
  shows "contents (snd (move_assign mv N this other h)) (m_array this) N
           = contents h (m_array other) N"
proof (cases "operator_ne_readme N this other h")
  case True
  then have "m_array this \<noteq> m_array other"
    by (auto simp: operator_ne_readme_def operator_eq_readme_iff)
  with assms have "m_array this < m_array other \<or> m_array other + N \<le> m_array this"
    by auto
  with True show ?thesis
    by (simp add: move_assign_def begin_iter_def end_iter_def contents_eq_iff std_move_dest)
next
  case False
  then have "contents h (m_array this) N = contents h (m_array other) N"
    by (simp add: operator_ne_readme_def operator_eq_readme_iff)
  with False show ?thesis by (simp add: move_assign_def)
qed

lemma move_assign_array_contents:
  assumes "m_array this \<le> data_ptr arr \<or> data_ptr arr + N \<le> m_array this"
  shows "contents (snd (move_assign_array mv N this arr h)) (m_array this) N
           = contents h (data_ptr arr) N"
proof (cases "m_array this = data_ptr arr")
  case True
  then show ?thesis by (simp add: move_assign_array_def)
next
  case False
  with assms have "m_array this < data_ptr arr \<or> data_ptr arr + N \<le> m_array this"
    by auto
  with False show ?thesis
    by (simp add: move_assign_array_def begin_iter_def contents_eq_iff std_move_dest)
qed

lemma swap_ranges_contents:
  assumes "q + n \<le> p \<or> p + n \<le> q"
  shows "contents (std_swap_ranges p (p + n) q h) p n = contents h q n"
    and "contents (std_swap_ranges p (p + n) q h) q n = contents h p n"
  using std_swap_ranges_both [OF assms, of _ h] by (simp_all add: contents_eq_iff)

lemma swap_hpp_contents:
  assumes "m_array this + N \<le> m_array other \<or> m_array other + N \<le> m_array this
           \<or> m_array this = m_array other"
  shows "contents (snd (snd (swap_hpp N this other h))) (m_array this) N
           = contents h (m_array other) N
         \<and> contents (snd (snd (swap_hpp N this other h))) (m_array other) N
           = contents h (m_array this) N"
proof (cases "m_array this = m_array other")
  case True
  then show ?thesis by (simp add: swap_hpp_def)
next
  case False
  with assms have "m_array other + N \<le> m_array this \<or> m_array this + N \<le> m_array other"
    by auto
  from swap_ranges_contents [OF this, of h] False show ?thesis
    by (simp add: swap_hpp_def begin_iter_def end_iter_def)
qed

lemma swap_readme_contents:
  assumes "m_array this + N \<le> m_array other \<or> m_array other + N \<le> m_array this
           \<or> m_array this = m_array other"
  shows "contents (snd (snd (swap_readme N this other h))) (m_array this) N
           = contents h (m_array other) N
         \<and> contents (snd (snd (swap_readme N this other h))) (m_array other) N
           = contents h (m_array this) N"
proof (cases "operator_ne_readme N this other h")
  case False
  then have "contents h (m_array this) N = contents h (m_array other) N"
    by (simp add: operator_ne_readme_def operator_eq_readme_iff)
  with False show ?thesis by (simp add: swap_readme_def)
next
  case True
  then have "m_array this \<noteq> m_array other"
    by (auto simp: operator_ne_readme_def operator_eq_readme_iff)
  with assms have "m_array other + N \<le> m_array this \<or> m_array this + N \<le> m_array other"
    by auto
  from swap_ranges_contents [OF this, of h] True show ?thesis
    by (simp add: swap_readme_def begin_iter_def end_iter_def)
qed

lemma swap_same_storage:
  assumes "m_array this = m_array other"
  shows "snd (snd (swap_hpp N this other h)) = h" and "snd (snd (swap_readme N this other h)) = h"
proof -
  show "snd (snd (swap_hpp N this other h)) = h"
    using assms by (simp add: swap_hpp_def)
  from assms have "\<not> operator_ne_readme N this other h"
    by (simp add: operator_ne_readme_def operator_eq_readme_iff)
  then show "snd (snd (swap_readme N this other h)) = h"
    by (simp add: swap_readme_def)
qed

text \<open>
  The four assignment operators of \<open>README.md\<close> together: the view is returned as it
  was, and the storage it references holds what the source held when the assignment
  began.
\<close>

lemma assignment_writes_through_readme:
  assumes "m_array this \<le> m_array other \<or> m_array other + N \<le> m_array this"
    and "m_array this \<le> data_ptr arr \<or> data_ptr arr + N \<le> m_array this"
  shows "fst (copy_assign N this other h) = this
     \<and> contents (snd (copy_assign N this other h)) (m_array this) N
         = contents h (m_array other) N
     \<and> fst (move_assign mv N this other h) = this
     \<and> contents (snd (move_assign mv N this other h)) (m_array this) N
         = contents h (m_array other) N
     \<and> fst (copy_assign_array N this arr h) = this
     \<and> contents (snd (copy_assign_array N this arr h)) (m_array this) N
         = contents h (data_ptr arr) N
     \<and> fst (move_assign_array mv N this arr h) = this
     \<and> contents (snd (move_assign_array mv N this arr h)) (m_array this) N
         = contents h (data_ptr arr) N"
proof -
  have "fst (copy_assign N this other h) = this" by (simp add: copy_assign_def)
  moreover have "fst (move_assign mv N this other h) = this" by (simp add: move_assign_def)
  moreover have "fst (copy_assign_array N this arr h) = this"
    by (simp add: copy_assign_array_def)
  moreover have "fst (move_assign_array mv N this arr h) = this"
    by (simp add: move_assign_array_def)
  ultimately show ?thesis
    using copy_assign_contents [OF assms(1), of h] move_assign_contents [OF assms(1), of mv h]
      copy_assign_array_contents [OF assms(2), of h]
      move_assign_array_contents [OF assms(2), of mv h]
    by simp
qed

lemma assignment_writes_through_readme_example:
  "fst (copy_assign 3 \<lparr>m_array = 0\<rparr> \<lparr>m_array = 3\<rparr>
         ((\<lambda>_. 0::int)(0 := 1, 1 := 2, 2 := 3, 3 := 4, 4 := 5, 5 := 6, 6 := 7, 7 := 8, 8 := 9)))
     = \<lparr>m_array = 0\<rparr>
   \<and> contents (snd (copy_assign 3 \<lparr>m_array = 0\<rparr> \<lparr>m_array = 3\<rparr>
         ((\<lambda>_. 0::int)(0 := 1, 1 := 2, 2 := 3, 3 := 4, 4 := 5, 5 := 6, 6 := 7, 7 := 8, 8 := 9)))) 0 3
     = [4, 5, 6]
   \<and> contents (snd (move_assign (\<lambda>_. 0) 3 \<lparr>m_array = 0\<rparr> \<lparr>m_array = 3\<rparr>
         ((\<lambda>_. 0::int)(0 := 1, 1 := 2, 2 := 3, 3 := 4, 4 := 5, 5 := 6, 6 := 7, 7 := 8, 8 := 9)))) 0 3
     = [4, 5, 6]
   \<and> contents (snd (copy_assign_array 3 \<lparr>m_array = 0\<rparr> \<lparr>data_ptr = 6\<rparr>
         ((\<lambda>_. 0::int)(0 := 1, 1 := 2, 2 := 3, 3 := 4, 4 := 5, 5 := 6, 6 := 7, 7 := 8, 8 := 9)))) 0 3
     = [7, 8, 9]
   \<and> contents (snd (move_assign_array (\<lambda>_. 0) 3 \<lparr>m_array = 0\<rparr> \<lparr>data_ptr = 6\<rparr>
         ((\<lambda>_. 0::int)(0 := 1, 1 := 2, 2 := 3, 3 := 4, 4 := 5, 5 := 6, 6 := 7, 7 := 8, 8 := 9)))) 0 3
     = [7, 8, 9]"
proof -
  let ?h = "(\<lambda>_. 0::int)(0 := 1, 1 := 2, 2 := 3, 3 := 4, 4 := 5, 5 := 6, 6 := 7, 7 := 8, 8 := 9)"
  have a1: "m_array \<lparr>m_array = 0\<rparr> \<le> m_array \<lparr>m_array = 3\<rparr>
              \<or> m_array \<lparr>m_array = 3\<rparr> + 3 \<le> m_array \<lparr>m_array = 0\<rparr>" by simp
  have a2: "m_array \<lparr>m_array = 0\<rparr> \<le> data_ptr \<lparr>data_ptr = 6\<rparr>
              \<or> data_ptr \<lparr>data_ptr = 6\<rparr> + 3 \<le> m_array \<lparr>m_array = 0\<rparr>" by simp
  have src: "contents ?h 3 3 = [4, 5, 6]" "contents ?h 6 3 = [7, 8, 9]" by code_simp+
  from assignment_writes_through_readme [OF a1 a2, of ?h "\<lambda>_. 0"] src
  show ?thesis by simp
qed

section \<open>Claims\<close>

text \<open>
  C1: two views over storages with identical contents compare equal even when the
  storages are at different addresses, since equality is decided by contents and never
  by the identity of the storage. \<open>operator==\<close> of \<open>array_wrapper.hpp\<close> does not do
  so: for the blocks \<open>{1, 2, 3}\<close> at address 0 and \<open>{1, 2, 3}\<close> at address 3 it returns
  false, where the \<open>operator==\<close> of the listing in \<open>README.md\<close> returns true.
\<close>

theorem C1_equality_by_contents_fails_in_hpp:
  "contents ((\<lambda>_. 0::int)(0 := 1, 1 := 2, 2 := 3, 3 := 1, 4 := 2, 5 := 3)) 0 3
     = contents ((\<lambda>_. 0::int)(0 := 1, 1 := 2, 2 := 3, 3 := 1, 4 := 2, 5 := 3)) 3 3
   \<and> \<not> operator_eq_hpp \<lparr>m_array = 0\<rparr> \<lparr>m_array = 3\<rparr>
   \<and> operator_eq_readme 3 \<lparr>m_array = 0\<rparr> \<lparr>m_array = 3\<rparr>
         ((\<lambda>_. 0::int)(0 := 1, 1 := 2, 2 := 3, 3 := 1, 4 := 2, 5 := 3))"
  by code_simp

text \<open>
  C2: each ordering operator returns the lexicographic comparison of the two contents.
  \<open>operator<=\<close> and \<open>operator>=\<close> of \<open>README.md\<close> do not: on \<open>{1, 5}\<close> and \<open>{1, 2}\<close>,
  \<open>{1, 5} <= {1, 2}\<close> and \<open>{1, 2} >= {1, 5}\<close> both return true, and neither holds
  lexicographically. \<open>{1, 2, 3} < {3, 2, 1}\<close> returns true, as it does lexicographically.
\<close>

theorem C2_le_ge_not_lexicographic:
  "operator_le 2 \<lparr>m_array = 0\<rparr> \<lparr>m_array = 2\<rparr> ((\<lambda>_. 0::int)(0 := 1, 1 := 5, 2 := 1, 3 := 2))
   \<and> \<not> contents ((\<lambda>_. 0::int)(0 := 1, 1 := 5, 2 := 1, 3 := 2)) 0 2
         \<le> contents ((\<lambda>_. 0::int)(0 := 1, 1 := 5, 2 := 1, 3 := 2)) 2 2
   \<and> operator_ge 2 \<lparr>m_array = 2\<rparr> \<lparr>m_array = 0\<rparr> ((\<lambda>_. 0::int)(0 := 1, 1 := 5, 2 := 1, 3 := 2))
   \<and> \<not> contents ((\<lambda>_. 0::int)(0 := 1, 1 := 5, 2 := 1, 3 := 2)) 2 2
         \<ge> contents ((\<lambda>_. 0::int)(0 := 1, 1 := 5, 2 := 1, 3 := 2)) 0 2
   \<and> operator_less 3 \<lparr>m_array = 0\<rparr> \<lparr>m_array = 3\<rparr>
         ((\<lambda>_. 0::int)(0 := 1, 1 := 2, 2 := 3, 3 := 3, 4 := 2, 5 := 1))"
  by code_simp

text \<open>
  C3: \<open>at(pos)\<close> returns a reference to slot \<open>pos\<close> when \<open>pos < N\<close>; when \<open>pos \<ge> N\<close> it
  throws \<open>out_of_range\<close> with a message from which \<open>pos\<close> is read back, and memory is as
  before. In both headers, a call of a public member that throws is a call of \<open>at\<close> with
  an index \<open>\<ge> N\<close>, what it throws is that \<open>out_of_range\<close>, and memory is as before.
\<close>

theorem C3_at_checked:
  "(pos < N \<longrightarrow> at_hpp N this pos h = (Inr (m_array this + pos), h)
              \<and> at_readme N this pos h = (Inr (m_array this + pos), h))
   \<and> (N \<le> pos \<longrightarrow>
        at_hpp N this pos h = (Inl (out_of_range (''Out of range: '' @ to_string pos)), h)
        \<and> at_readme N this pos h = (Inl (out_of_range (''Out of range: '' @ to_string pos)), h)
        \<and> carried_index (out_of_range (''Out of range: '' @ to_string pos)) = pos)
   \<and> (fst (call_hpp N this m h) = Inl e \<longrightarrow>
        (\<exists>p. m = At p \<and> N \<le> p \<and> e = out_of_range (''Out of range: '' @ to_string p))
        \<and> snd (call_hpp N this m h) = h)
   \<and> (fst (call_readme mv N this m' g) = Inl e' \<longrightarrow>
        (\<exists>p. m' = Common (At p) \<and> N \<le> p
             \<and> e' = out_of_range (''Out of range: '' @ to_string p))
        \<and> snd (call_readme mv N this m' g) = g)"
proof (intro conjI impI)
  assume "fst (call_hpp N this m h) = Inl e"
  from call_hpp_throws [OF this]
  show "\<exists>p. m = At p \<and> N \<le> p \<and> e = out_of_range (''Out of range: '' @ to_string p)"
    and "snd (call_hpp N this m h) = h"
    by (auto simp: raise_range_error_def)
next
  assume "fst (call_readme mv N this m' g) = Inl e'"
  from call_readme_throws [OF this]
  show "\<exists>p. m' = Common (At p) \<and> N \<le> p \<and> e' = out_of_range (''Out of range: '' @ to_string p)"
    and "snd (call_readme mv N this m' g) = g"
    by (auto simp: raise_range_error_def)
next
  show "carried_index (out_of_range (''Out of range: '' @ to_string pos)) = pos"
    using carried_index_raise [of pos] by (simp add: raise_range_error_def)
qed (simp_all add: at_hpp_def at_readme_def at_const_readme_def raise_range_error_def)

theorem C3_at_checked_witness:
  "at_hpp 5 \<lparr>m_array = 0\<rparr> 2 ((\<lambda>_. 0::int)(0 := 1, 1 := 3, 2 := 5, 3 := 7, 4 := 9))
     = (Inr 2, (\<lambda>_. 0::int)(0 := 1, 1 := 3, 2 := 5, 3 := 7, 4 := 9))
   \<and> ((\<lambda>_. 0)(0 := 1, 1 := 3, 2 := 5, 3 := 7, 4 := 9) :: int heap) 2 = 5
   \<and> at_hpp 5 \<lparr>m_array = 0\<rparr> 5 ((\<lambda>_. 0::int)(0 := 1, 1 := 3, 2 := 5, 3 := 7, 4 := 9))
     = (Inl (out_of_range ''Out of range: 5''),
        (\<lambda>_. 0::int)(0 := 1, 1 := 3, 2 := 5, 3 := 7, 4 := 9))
   \<and> carried_index (out_of_range ''Out of range: 5'') = 5
   \<and> (\<exists>p. (At 5 :: int member) = At p \<and> 5 \<le> p)
   \<and> (\<exists>p. (Common (At 5) :: int member_readme) = Common (At p) \<and> 5 \<le> p)"
proof -
  let ?h = "(\<lambda>_. 0::int)(0 := 1, 1 := 3, 2 := 5, 3 := 7, 4 := 9)"
  let ?e = "out_of_range ''Out of range: 5''"
  have ts: "to_string 5 = ''5''" by code_simp
  have thrown: "fst (call_hpp 5 \<lparr>m_array = 0\<rparr> (At 5) ?h) = Inl ?e"
    by (simp add: checked_def at_hpp_def ts)
  have thrown': "fst (call_readme id 5 \<lparr>m_array = 0\<rparr> (Common (At 5)) ?h) = Inl ?e"
    by (simp add: checked_def at_readme_def at_const_readme_def raise_range_error_def ts)
  from C3_at_checked [of 2 5 "\<lparr>m_array = 0\<rparr>" ?h "At 5" ?e id "Common (At 5)" ?h ?e]
       C3_at_checked [of 5 5 "\<lparr>m_array = 0\<rparr>" ?h "At 5" ?e id "Common (At 5)" ?h ?e]
       thrown thrown'
  show ?thesis by (simp add: ts)
qed

text \<open>
  C4: for every view (\<open>N > 0\<close>) \<open>empty()\<close> returns false. \<open>empty()\<close> of
  \<open>array_wrapper.hpp\<close> returns true for \<open>N = 5\<close>; that of \<open>README.md\<close> returns false.
\<close>

theorem C4_empty_true_in_hpp:
  "empty_hpp 5 \<lparr>m_array = 0\<rparr> \<and> \<not> empty_readme 5 \<lparr>m_array = 0\<rparr>"
  by (simp add: empty_hpp_def empty_readme_def)

text \<open>
  C5: after a copy or move assignment from another view (or from a \<open>std::array\<close> of the
  same size), the storage that the view referenced holds the source's contents, and the
  view references the storage it referenced before. The assignment of
  \<open>array_wrapper.hpp\<close> does not do so: for \<open>{1, 2, 3}\<close> at address 0 and \<open>{4, 5, 6}\<close> at
  address 3, both \<open>view1 = view2\<close> and \<open>view1 = std::move(view2)\<close> leave every element as
  it was, so the storage at address 0 still holds \<open>{1, 2, 3}\<close>, and \<open>view1\<close> references
  address 3 afterwards. The copy assignment of \<open>README.md\<close> on the same input leaves
  \<open>view1\<close> at address 0 and \<open>{4, 5, 6}\<close> in that storage.
\<close>

theorem C5_assignment_rebinds_in_hpp:
  "fst (copy_assign_hpp \<lparr>m_array = 0\<rparr> \<lparr>m_array = 3\<rparr>
         ((\<lambda>_. 0::int)(0 := 1, 1 := 2, 2 := 3, 3 := 4, 4 := 5, 5 := 6)))
     = \<lparr>m_array = 3\<rparr>
   \<and> contents (snd (copy_assign_hpp \<lparr>m_array = 0\<rparr> \<lparr>m_array = 3\<rparr>
         ((\<lambda>_. 0::int)(0 := 1, 1 := 2, 2 := 3, 3 := 4, 4 := 5, 5 := 6)))) 0 3
     = [1, 2, 3]
   \<and> fst (move_assign_hpp \<lparr>m_array = 0\<rparr> \<lparr>m_array = 3\<rparr>
         ((\<lambda>_. 0::int)(0 := 1, 1 := 2, 2 := 3, 3 := 4, 4 := 5, 5 := 6)))
     = \<lparr>m_array = 3\<rparr>
   \<and> contents (snd (move_assign_hpp \<lparr>m_array = 0\<rparr> \<lparr>m_array = 3\<rparr>
         ((\<lambda>_. 0::int)(0 := 1, 1 := 2, 2 := 3, 3 := 4, 4 := 5, 5 := 6)))) 0 3
     = [1, 2, 3]
   \<and> contents ((\<lambda>_. 0::int)(0 := 1, 1 := 2, 2 := 3, 3 := 4, 4 := 5, 5 := 6)) 3 3
     = [4, 5, 6]
   \<and> fst (copy_assign 3 \<lparr>m_array = 0\<rparr> \<lparr>m_array = 3\<rparr>
         ((\<lambda>_. 0::int)(0 := 1, 1 := 2, 2 := 3, 3 := 4, 4 := 5, 5 := 6)))
     = \<lparr>m_array = 0\<rparr>
   \<and> contents (snd (copy_assign 3 \<lparr>m_array = 0\<rparr> \<lparr>m_array = 3\<rparr>
         ((\<lambda>_. 0::int)(0 := 1, 1 := 2, 2 := 3, 3 := 4, 4 := 5, 5 := 6)))) 0 3
     = [4, 5, 6]"
  by code_simp

text \<open>
  C6: copy assignment, move assignment and swap between two views skip the element-wise
  operation exactly when the two views refer to the same storage, which is detected by
  the identity of the storage and not by comparing contents. In \<open>README.md\<close> the guard
  of all three is \<open>*this != other\<close>, which compares contents: for two distinct storages
  with equal contents, at addresses 0 and 3, it is false, so move assignment
  moves nothing and the source keeps its elements, where the element-wise move (and the
  overload for \<open>std::array\<close>, guarded by the addresses) leaves moved-from elements. The
  theorem shows it on strings, \<open>{"a", "b", "c"}\<close> twice, with the empty string as the
  moved-from state. The guard of \<open>array_wrapper.hpp\<close> compares the addresses.
\<close>

theorem C6_noop_decided_by_contents_in_readme:
  "m_array \<lparr>m_array = 0\<rparr> \<noteq> m_array \<lparr>m_array = 3\<rparr>
   \<and> \<not> operator_ne_readme 3 \<lparr>m_array = 0\<rparr> \<lparr>m_array = 3\<rparr>
         ((\<lambda>_. '''')(0 := ''a'', 1 := ''b'', 2 := ''c'', 3 := ''a'', 4 := ''b'', 5 := ''c''))
   \<and> contents (snd (move_assign (\<lambda>_. '''') 3 \<lparr>m_array = 0\<rparr> \<lparr>m_array = 3\<rparr>
         ((\<lambda>_. '''')(0 := ''a'', 1 := ''b'', 2 := ''c'', 3 := ''a'', 4 := ''b'', 5 := ''c'')))) 3 3
       = [''a'', ''b'', ''c'']
   \<and> contents (std_move (\<lambda>_. '''') 3 6 0
         ((\<lambda>_. '''')(0 := ''a'', 1 := ''b'', 2 := ''c'', 3 := ''a'', 4 := ''b'', 5 := ''c''))) 3 3
       = ['''', '''', '''']
   \<and> contents (snd (move_assign_array (\<lambda>_. '''') 3 \<lparr>m_array = 0\<rparr> \<lparr>data_ptr = 3\<rparr>
         ((\<lambda>_. '''')(0 := ''a'', 1 := ''b'', 2 := ''c'', 3 := ''a'', 4 := ''b'', 5 := ''c'')))) 3 3
       = ['''', '''', '''']
   \<and> operator_ne_hpp \<lparr>m_array = 0\<rparr> \<lparr>m_array = 3\<rparr>"
  by code_simp

text \<open>
  C7: for two views over storages that do not overlap, \<open>swap\<close> leaves in each storage
  what the other held; for two views over the same storage it leaves memory as it was;
  and both views reference the storages they referenced before. This holds for the
  \<open>swap\<close> of \<open>array_wrapper.hpp\<close> and for that of \<open>README.md\<close>.
\<close>

theorem C7_swap_exchanges_contents:
  assumes "m_array this + N \<le> m_array other \<or> m_array other + N \<le> m_array this
           \<or> m_array this = m_array other"
  shows "fst (swap_hpp N this other h) = this \<and> fst (snd (swap_hpp N this other h)) = other
     \<and> contents (snd (snd (swap_hpp N this other h))) (m_array this) N
         = contents h (m_array other) N
     \<and> contents (snd (snd (swap_hpp N this other h))) (m_array other) N
         = contents h (m_array this) N
     \<and> (m_array this = m_array other \<longrightarrow> snd (snd (swap_hpp N this other h)) = h)
     \<and> fst (swap_readme N this other h) = this \<and> fst (snd (swap_readme N this other h)) = other
     \<and> contents (snd (snd (swap_readme N this other h))) (m_array this) N
         = contents h (m_array other) N
     \<and> contents (snd (snd (swap_readme N this other h))) (m_array other) N
         = contents h (m_array this) N
     \<and> (m_array this = m_array other \<longrightarrow> snd (snd (swap_readme N this other h)) = h)"
proof -
  have "fst (swap_hpp N this other h) = this" "fst (snd (swap_hpp N this other h)) = other"
    by (simp_all add: swap_hpp_def)
  moreover have "fst (swap_readme N this other h) = this"
    "fst (snd (swap_readme N this other h)) = other"
    by (simp_all add: swap_readme_def)
  ultimately show ?thesis
    using swap_hpp_contents [OF assms, of h] swap_readme_contents [OF assms, of h]
      swap_same_storage [of this other N h]
    by simp
qed

theorem C7_swap_exchanges_contents_witness:
  "contents ((\<lambda>_. 0::int)(0 := 1, 1 := 2, 2 := 3, 3 := 3, 4 := 2, 5 := 1)) 0 3 = [1, 2, 3]
   \<and> contents ((\<lambda>_. 0::int)(0 := 1, 1 := 2, 2 := 3, 3 := 3, 4 := 2, 5 := 1)) 3 3 = [3, 2, 1]
   \<and> contents (snd (snd (swap_hpp 3 \<lparr>m_array = 0\<rparr> \<lparr>m_array = 3\<rparr>
         ((\<lambda>_. 0::int)(0 := 1, 1 := 2, 2 := 3, 3 := 3, 4 := 2, 5 := 1))))) 0 3 = [3, 2, 1]
   \<and> contents (snd (snd (swap_hpp 3 \<lparr>m_array = 0\<rparr> \<lparr>m_array = 3\<rparr>
         ((\<lambda>_. 0::int)(0 := 1, 1 := 2, 2 := 3, 3 := 3, 4 := 2, 5 := 1))))) 3 3 = [1, 2, 3]
   \<and> contents (snd (snd (swap_readme 3 \<lparr>m_array = 0\<rparr> \<lparr>m_array = 3\<rparr>
         ((\<lambda>_. 0::int)(0 := 1, 1 := 2, 2 := 3, 3 := 3, 4 := 2, 5 := 1))))) 0 3 = [3, 2, 1]
   \<and> contents (snd (snd (swap_readme 3 \<lparr>m_array = 0\<rparr> \<lparr>m_array = 3\<rparr>
         ((\<lambda>_. 0::int)(0 := 1, 1 := 2, 2 := 3, 3 := 3, 4 := 2, 5 := 1))))) 3 3 = [1, 2, 3]
   \<and> snd (snd (swap_hpp 3 \<lparr>m_array = 0\<rparr> \<lparr>m_array = 0\<rparr>
         ((\<lambda>_. 0::int)(0 := 1, 1 := 2, 2 := 3, 3 := 3, 4 := 2, 5 := 1))))
       = (\<lambda>_. 0::int)(0 := 1, 1 := 2, 2 := 3, 3 := 3, 4 := 2, 5 := 1)
   \<and> snd (snd (swap_readme 3 \<lparr>m_array = 0\<rparr> \<lparr>m_array = 0\<rparr>
         ((\<lambda>_. 0::int)(0 := 1, 1 := 2, 2 := 3, 3 := 3, 4 := 2, 5 := 1))))
       = (\<lambda>_. 0::int)(0 := 1, 1 := 2, 2 := 3, 3 := 3, 4 := 2, 5 := 1)"
proof -
  let ?h = "(\<lambda>_. 0::int)(0 := 1, 1 := 2, 2 := 3, 3 := 3, 4 := 2, 5 := 1)"
  have distinct: "m_array \<lparr>m_array = 0\<rparr> + 3 \<le> m_array \<lparr>m_array = 3\<rparr>
                    \<or> m_array \<lparr>m_array = 3\<rparr> + 3 \<le> m_array \<lparr>m_array = 0\<rparr>
                    \<or> m_array \<lparr>m_array = 0\<rparr> = m_array \<lparr>m_array = 3\<rparr>" by simp
  have same: "m_array \<lparr>m_array = 0\<rparr> + 3 \<le> m_array \<lparr>m_array = 0\<rparr>
                \<or> m_array \<lparr>m_array = 0\<rparr> + 3 \<le> m_array \<lparr>m_array = 0\<rparr>
                \<or> m_array \<lparr>m_array = 0\<rparr> = m_array \<lparr>m_array = 0\<rparr>" by simp
  have before: "contents ?h 0 3 = [1, 2, 3]" "contents ?h 3 3 = [3, 2, 1]" by code_simp+
  from C7_swap_exchanges_contents [OF distinct, of ?h]
       C7_swap_exchanges_contents [OF same, of ?h] before
  show ?thesis by simp
qed

text \<open>
  C8: for every view and every value \<open>v\<close>, \<open>fill(v)\<close> writes \<open>v\<close> into every one of the
  \<open>N\<close> referenced slots, whatever they held, and touches no other address; filling a
  second time with the same value leaves memory as the first fill left it.
\<close>

theorem C8_fill_writes_all_and_idempotent:
  "contents (fill N this v h) (m_array this) N = replicate N v
   \<and> fill N this v h = (\<lambda>a. if m_array this \<le> a \<and> a < m_array this + N then v else h a)
   \<and> fill N this v (fill N this v h) = fill N this v h"
proof -
  have eq: "\<And>g. fill N this v g
              = (\<lambda>a. if m_array this \<le> a \<and> a < m_array this + N then v else g a)"
    by (rule ext) (simp add: fill_def begin_iter_def std_fill_n_get)
  have "contents (fill N this v h) (m_array this) N = replicate N v"
    unfolding contents_def eq by (rule nth_equalityI) auto
  moreover have "fill N this v (fill N this v h) = fill N this v h"
    unfolding eq by (rule ext) simp
  ultimately show ?thesis using eq by blast
qed

text \<open>
  C9: for every index \<open>pos < N\<close>, \<open>at(pos)\<close> returns the reference that \<open>operator[]\<close>
  returns, in both headers, so the two read the same value.
\<close>

theorem C9_subscript_agrees_with_at:
  "pos < N \<Longrightarrow>
   at_hpp N this pos h = (Inr (subscript this pos), h)
   \<and> at_readme N this pos h = (Inr (subscript this pos), h)"
  by (simp add: at_hpp_def at_readme_def at_const_readme_def subscript_def)

theorem C9_subscript_agrees_with_at_witness:
  "(2::nat) < 5
   \<and> at_hpp 5 \<lparr>m_array = 0\<rparr> 2 ((\<lambda>_. 0::int)(0 := 1, 1 := 3, 2 := 5, 3 := 7, 4 := 9))
       = (Inr (subscript \<lparr>m_array = 0\<rparr> 2), (\<lambda>_. 0::int)(0 := 1, 1 := 3, 2 := 5, 3 := 7, 4 := 9))
   \<and> at_readme 5 \<lparr>m_array = 0\<rparr> 2 ((\<lambda>_. 0::int)(0 := 1, 1 := 3, 2 := 5, 3 := 7, 4 := 9))
       = (Inr (subscript \<lparr>m_array = 0\<rparr> 2), (\<lambda>_. 0::int)(0 := 1, 1 := 3, 2 := 5, 3 := 7, 4 := 9))
   \<and> subscript \<lparr>m_array = 0\<rparr> 2 = 2"
proof -
  have lt: "(2::nat) < 5" by simp
  from C9_subscript_agrees_with_at [OF lt, of "\<lparr>m_array = 0\<rparr>"
         "(\<lambda>_. 0::int)(0 := 1, 1 := 3, 2 := 5, 3 := 7, 4 := 9)"] lt
  show ?thesis by (simp add: subscript_def)
qed

text \<open>
  C10: the traversal from \<open>rbegin()\<close> to \<open>rend()\<close> visits the slots that the traversal
  from \<open>begin()\<close> to \<open>end()\<close> visits, the \<open>N\<close> slots of the storage, in the reverse
  order. Both visit addresses of the storage itself: read in any memory \<open>h\<close>, they
  give the contents that the storage has in \<open>h\<close>, forwards and reversed.
\<close>

theorem C10_reverse_is_reversed_forward:
  "traverse (begin_iter this) (end_iter N this) = [m_array this..<m_array this + N]
   \<and> rtraverse (rbegin N this) (rend this) = rev (traverse (begin_iter this) (end_iter N this))
   \<and> map h (traverse (begin_iter this) (end_iter N this)) = contents h (m_array this) N
   \<and> map h (rtraverse (rbegin N this) (rend this)) = rev (contents h (m_array this) N)"
  by (simp add: begin_iter_def end_iter_def rbegin_def rend_def traverse_upt rtraverse_rev_upt
        contents_def rev_map)

end
